theory Spec2Isabelle
  imports Complex_Main
begin

section \<open>The alignment result (alignment\_result.hpp)\<close>

subsection \<open>Members that may be missing\<close>

text \<open>
  Every member of \<open>alignment_result_value_type\<close> has a template type of its own. The
  type \<open>std::nullopt_t *\<close> marks a member that was not computed; any other type holds a
  value. The embedding folds the template argument and the stored value into one
  datatype: \<open>Nullopt_ptr\<close> is a member of type \<open>std::nullopt_t *\<close>, \<open>Value v\<close> is a
  member of a proper type that stores \<open>v\<close>. The test
  \<open>!std::is_same_v<T, std::nullopt_t *>\<close> of the source is \<open>is_available\<close>.
\<close>

datatype 'a field = Nullopt_ptr | Value 'a

fun is_available :: "'a field \<Rightarrow> bool" where
  "is_available Nullopt_ptr = False"
| "is_available (Value v) = True"

text \<open>
  A \<open>static_assert\<close> that fails rejects the program when it is built; the accessor then
  has no value at all. The message is the one of the source.
\<close>

datatype error = Static_assert string

text \<open>
  The struct \<open>alignment_result_value_type\<close>. The members are read as \<open>data.id\<close>,
  \<open>data.score\<close>, ... in the source, hence their names here. Both position members are
  pairs, read with \<open>.first\<close> and \<open>.second\<close>.
\<close>

record ('id, 'score, 'pos, 'aln, 'sm, 'tm) alignment_result_value_type =
  data_id :: "'id field"
  data_score :: "'score field"
  data_end_positions :: "('pos \<times> 'pos) field"
  data_begin_positions :: "('pos \<times> 'pos) field"
  data_alignment :: "'aln field"
  data_score_debug_matrix :: "'sm field"
  data_trace_debug_matrix :: "'tm field"

subsection \<open>Type deduction guides\<close>

text \<open>
  Each guide fixes the template arguments from the values handed over and leaves the
  remaining ones at their default \<open>std::nullopt_t *\<close>. The empty guide makes even the
  identifier and the score unavailable.
\<close>

definition value_type_empty ::
  "('id, 'score, 'pos, 'aln, 'sm, 'tm) alignment_result_value_type" where
  "value_type_empty =
     \<lparr>data_id = Nullopt_ptr, data_score = Nullopt_ptr, data_end_positions = Nullopt_ptr,
      data_begin_positions = Nullopt_ptr, data_alignment = Nullopt_ptr,
      data_score_debug_matrix = Nullopt_ptr, data_trace_debug_matrix = Nullopt_ptr\<rparr>"

definition value_type_id_score ::
  "'id \<Rightarrow> 'score \<Rightarrow> ('id, 'score, 'pos, 'aln, 'sm, 'tm) alignment_result_value_type" where
  "value_type_id_score i s =
     \<lparr>data_id = Value i, data_score = Value s, data_end_positions = Nullopt_ptr,
      data_begin_positions = Nullopt_ptr, data_alignment = Nullopt_ptr,
      data_score_debug_matrix = Nullopt_ptr, data_trace_debug_matrix = Nullopt_ptr\<rparr>"

definition value_type_id_score_end ::
  "'id \<Rightarrow> 'score \<Rightarrow> 'pos \<times> 'pos \<Rightarrow>
     ('id, 'score, 'pos, 'aln, 'sm, 'tm) alignment_result_value_type" where
  "value_type_id_score_end i s e =
     \<lparr>data_id = Value i, data_score = Value s, data_end_positions = Value e,
      data_begin_positions = Nullopt_ptr, data_alignment = Nullopt_ptr,
      data_score_debug_matrix = Nullopt_ptr, data_trace_debug_matrix = Nullopt_ptr\<rparr>"

definition value_type_id_score_end_begin ::
  "'id \<Rightarrow> 'score \<Rightarrow> 'pos \<times> 'pos \<Rightarrow> 'pos \<times> 'pos \<Rightarrow>
     ('id, 'score, 'pos, 'aln, 'sm, 'tm) alignment_result_value_type" where
  "value_type_id_score_end_begin i s e b =
     \<lparr>data_id = Value i, data_score = Value s, data_end_positions = Value e,
      data_begin_positions = Value b, data_alignment = Nullopt_ptr,
      data_score_debug_matrix = Nullopt_ptr, data_trace_debug_matrix = Nullopt_ptr\<rparr>"

definition value_type_id_score_end_begin_alignment ::
  "'id \<Rightarrow> 'score \<Rightarrow> 'pos \<times> 'pos \<Rightarrow> 'pos \<times> 'pos \<Rightarrow> 'aln \<Rightarrow>
     ('id, 'score, 'pos, 'aln, 'sm, 'tm) alignment_result_value_type" where
  "value_type_id_score_end_begin_alignment i s e b a =
     \<lparr>data_id = Value i, data_score = Value s, data_end_positions = Value e,
      data_begin_positions = Value b, data_alignment = Value a,
      data_score_debug_matrix = Nullopt_ptr, data_trace_debug_matrix = Nullopt_ptr\<rparr>"

subsection \<open>The class \<open>alignment_result\<close>\<close>

text \<open>The class has one private member, \<open>data\<close>.\<close>

record ('id, 'score, 'pos, 'aln, 'sm, 'tm) alignment_result =
  data :: "('id, 'score, 'pos, 'aln, 'sm, 'tm) alignment_result_value_type"

text \<open>The constructor \<open>alignment_result(alignment_result_value_t value)\<close> moves the value in.\<close>

definition alignment_result_from ::
  "('id, 'score, 'pos, 'aln, 'sm, 'tm) alignment_result_value_type \<Rightarrow>
     ('id, 'score, 'pos, 'aln, 'sm, 'tm) alignment_result" where
  "alignment_result_from v = \<lparr>data = v\<rparr>"

text \<open>
  The access functions. Each one first asserts statically that its member's type is not
  \<open>std::nullopt_t *\<close> and then returns the member. The accessor \<open>id()\<close> is \<open>result_id\<close>
  here.
\<close>

definition result_id ::
  "('id, 'score, 'pos, 'aln, 'sm, 'tm) alignment_result \<Rightarrow> error + 'id" where
  "result_id r =
     (case data_id (data r) of
        Nullopt_ptr \<Rightarrow> Inl (Static_assert ''Identifier is not available but should.'')
      | Value v \<Rightarrow> Inr v)"

definition score ::
  "('id, 'score, 'pos, 'aln, 'sm, 'tm) alignment_result \<Rightarrow> error + 'score" where
  "score r =
     (case data_score (data r) of
        Nullopt_ptr \<Rightarrow> Inl (Static_assert ''Alignment score is not available but should.'')
      | Value v \<Rightarrow> Inr v)"

definition sequence1_end_position ::
  "('id, 'score, 'pos, 'aln, 'sm, 'tm) alignment_result \<Rightarrow> error + 'pos" where
  "sequence1_end_position r =
     (case data_end_positions (data r) of
        Nullopt_ptr \<Rightarrow> Inl (Static_assert
          (''Trying to access the end position of the first sequence, although it was not requested in the'' @
           '' alignment configuration.''))
      | Value p \<Rightarrow> Inr (fst p))"

definition sequence2_end_position ::
  "('id, 'score, 'pos, 'aln, 'sm, 'tm) alignment_result \<Rightarrow> error + 'pos" where
  "sequence2_end_position r =
     (case data_end_positions (data r) of
        Nullopt_ptr \<Rightarrow> Inl (Static_assert
          (''Trying to access the end position of the second sequence, although it was not requested in the'' @
           '' alignment configuration.''))
      | Value p \<Rightarrow> Inr (snd p))"

definition sequence1_begin_position ::
  "('id, 'score, 'pos, 'aln, 'sm, 'tm) alignment_result \<Rightarrow> error + 'pos" where
  "sequence1_begin_position r =
     (case data_begin_positions (data r) of
        Nullopt_ptr \<Rightarrow> Inl (Static_assert
          (''Trying to access the begin position of the first sequence, although it was not requested in the'' @
           '' alignment configuration.''))
      | Value p \<Rightarrow> Inr (fst p))"

definition sequence2_begin_position ::
  "('id, 'score, 'pos, 'aln, 'sm, 'tm) alignment_result \<Rightarrow> error + 'pos" where
  "sequence2_begin_position r =
     (case data_begin_positions (data r) of
        Nullopt_ptr \<Rightarrow> Inl (Static_assert
          (''Trying to access the begin position of the second sequence, although it was not requested in the'' @
           '' alignment configuration.''))
      | Value p \<Rightarrow> Inr (snd p))"

definition alignment ::
  "('id, 'score, 'pos, 'aln, 'sm, 'tm) alignment_result \<Rightarrow> error + 'aln" where
  "alignment r =
     (case data_alignment (data r) of
        Nullopt_ptr \<Rightarrow> Inl (Static_assert
          ''Trying to access the alignment, although it was not requested in the alignment configuration.'')
      | Value v \<Rightarrow> Inr v)"

definition score_matrix ::
  "('id, 'score, 'pos, 'aln, 'sm, 'tm) alignment_result \<Rightarrow> error + 'sm" where
  "score_matrix r =
     (case data_score_debug_matrix (data r) of
        Nullopt_ptr \<Rightarrow> Inl (Static_assert
          ''Trying to access the score matrix, although it was not requested in the alignment configuration.'')
      | Value v \<Rightarrow> Inr v)"

definition trace_matrix ::
  "('id, 'score, 'pos, 'aln, 'sm, 'tm) alignment_result \<Rightarrow> error + 'tm" where
  "trace_matrix r =
     (case data_trace_debug_matrix (data r) of
        Nullopt_ptr \<Rightarrow> Inl (Static_assert
          ''Trying to access the trace matrix, although it was not requested in the alignment configuration.'')
      | Value v \<Rightarrow> Inr v)"

text \<open>
  The defaulted constructor \<open>alignment_result() = default\<close> value-initialises \<open>data\<close>
  through the initialiser \<open>data{}\<close>, and every member of the struct through its own
  \<open>{}\<close>. What a member then holds depends on its template argument alone: a member of
  type \<open>std::nullopt_t *\<close> is the null pointer, a member of a proper type \<open>T\<close> is \<open>T{}\<close>
  (zero for an arithmetic type, the empty string for a string). A template argument is
  therefore described by \<open>Nullopt_ptr_type\<close> or by \<open>Proper_type d\<close>, where \<open>d\<close> is the
  value-initialised value of the type.
\<close>

datatype 'a template_argument = Nullopt_ptr_type | Proper_type 'a

fun value_initialised :: "'a template_argument \<Rightarrow> 'a field" where
  "value_initialised Nullopt_ptr_type = Nullopt_ptr"
| "value_initialised (Proper_type d) = Value d"

record ('id, 'score, 'pos, 'aln, 'sm, 'tm) template_arguments =
  id_t :: "'id template_argument"
  score_t :: "'score template_argument"
  end_positions_t :: "('pos \<times> 'pos) template_argument"
  begin_positions_t :: "('pos \<times> 'pos) template_argument"
  alignment_t :: "'aln template_argument"
  score_debug_matrix_t :: "'sm template_argument"
  trace_debug_matrix_t :: "'tm template_argument"

definition alignment_result_default ::
  "('id, 'score, 'pos, 'aln, 'sm, 'tm) template_arguments \<Rightarrow>
     ('id, 'score, 'pos, 'aln, 'sm, 'tm) alignment_result" where
  "alignment_result_default T =
     \<lparr>data =
        \<lparr>data_id = value_initialised (id_t T),
         data_score = value_initialised (score_t T),
         data_end_positions = value_initialised (end_positions_t T),
         data_begin_positions = value_initialised (begin_positions_t T),
         data_alignment = value_initialised (alignment_t T),
         data_score_debug_matrix = value_initialised (score_debug_matrix_t T),
         data_trace_debug_matrix = value_initialised (trace_debug_matrix_t T)\<rparr>\<rparr>"

subsection \<open>Streaming a result to the debug stream\<close>

text \<open>
  The stream is the text written so far; \<open><<\<close> appends. How the debug stream prints an
  identifier, a score, a position or an alignment is decided by other headers, so these
  four printers are parameters of the operator.
\<close>

record ('id, 'score, 'pos, 'aln) printers =
  print_id :: "'id \<Rightarrow> string"
  print_score :: "'score \<Rightarrow> string"
  print_position :: "'pos \<Rightarrow> string"
  print_alignment :: "'aln \<Rightarrow> string"

text \<open>Sequencing of steps that may be rejected: the first failure is the outcome.\<close>

definition and_then :: "'e + 'a \<Rightarrow> ('a \<Rightarrow> 'e + 'b) \<Rightarrow> 'e + 'b" where
  "and_then m f = (case m of Inl e \<Rightarrow> Inl e | Inr v \<Rightarrow> f v)"

text \<open>The five \<open>constexpr bool\<close> flags of the operator.\<close>

definition has_id :: "('id, 'score, 'pos, 'aln, 'sm, 'tm) alignment_result \<Rightarrow> bool" where
  "has_id r = is_available (data_id (data r))"

definition has_score :: "('id, 'score, 'pos, 'aln, 'sm, 'tm) alignment_result \<Rightarrow> bool" where
  "has_score r = is_available (data_score (data r))"

definition has_end_positions ::
  "('id, 'score, 'pos, 'aln, 'sm, 'tm) alignment_result \<Rightarrow> bool" where
  "has_end_positions r = is_available (data_end_positions (data r))"

definition has_begin_positions ::
  "('id, 'score, 'pos, 'aln, 'sm, 'tm) alignment_result \<Rightarrow> bool" where
  "has_begin_positions r = is_available (data_begin_positions (data r))"

definition has_alignment ::
  "('id, 'score, 'pos, 'aln, 'sm, 'tm) alignment_result \<Rightarrow> bool" where
  "has_alignment r = is_available (data_alignment (data r))"

text \<open>
  One definition for each \<open>if constexpr\<close> statement of the operator, in the order of the
  source. A branch whose flag is false is discarded, so its accessors are not called.
\<close>

definition stream_id ::
  "('id, 'score, 'pos, 'aln) printers \<Rightarrow> ('id, 'score, 'pos, 'aln, 'sm, 'tm) alignment_result \<Rightarrow>
     string \<Rightarrow> error + string" where
  "stream_id P r stream =
     (if has_id r
      then and_then (result_id r) (\<lambda>i. Inr (stream @ ''id: '' @ print_id P i))
      else Inr stream)"

definition stream_score ::
  "('id, 'score, 'pos, 'aln) printers \<Rightarrow> ('id, 'score, 'pos, 'aln, 'sm, 'tm) alignment_result \<Rightarrow>
     string \<Rightarrow> error + string" where
  "stream_score P r stream =
     (if has_score r
      then and_then (score r) (\<lambda>s. Inr (stream @ '', score: '' @ print_score P s))
      else Inr stream)"

definition stream_begin_positions ::
  "('id, 'score, 'pos, 'aln) printers \<Rightarrow> ('id, 'score, 'pos, 'aln, 'sm, 'tm) alignment_result \<Rightarrow>
     string \<Rightarrow> error + string" where
  "stream_begin_positions P r stream =
     (if has_begin_positions r
      then and_then (sequence1_begin_position r) (\<lambda>p1.
           and_then (sequence2_begin_position r) (\<lambda>p2.
             Inr (stream @ '', begin: ('' @ print_position P p1 @ '','' @
                  print_position P p2 @ '')'')))
      else Inr stream)"

definition stream_end_positions ::
  "('id, 'score, 'pos, 'aln) printers \<Rightarrow> ('id, 'score, 'pos, 'aln, 'sm, 'tm) alignment_result \<Rightarrow>
     string \<Rightarrow> error + string" where
  "stream_end_positions P r stream =
     (if has_end_positions r
      then and_then (sequence1_end_position r) (\<lambda>p1.
           and_then (sequence2_end_position r) (\<lambda>p2.
             Inr (stream @ '', end: ('' @ print_position P p1 @ '','' @
                  print_position P p2 @ '')'')))
      else Inr stream)"

definition stream_alignment ::
  "('id, 'score, 'pos, 'aln) printers \<Rightarrow> ('id, 'score, 'pos, 'aln, 'sm, 'tm) alignment_result \<Rightarrow>
     string \<Rightarrow> error + string" where
  "stream_alignment P r stream =
     (if has_alignment r
      then and_then (alignment r) (\<lambda>a.
             Inr (stream @ [CHR ''\<newline>''] @ ''alignment:'' @ [CHR ''\<newline>''] @
                  print_alignment P a))
      else Inr stream)"

text \<open>\<open>operator<<(debug_stream_type<char_t> & stream, alignment_result_t && result)\<close>.\<close>

definition debug_stream_result ::
  "('id, 'score, 'pos, 'aln) printers \<Rightarrow> string \<Rightarrow>
     ('id, 'score, 'pos, 'aln, 'sm, 'tm) alignment_result \<Rightarrow> error + string" where
  "debug_stream_result P stream r =
     and_then (stream_id P r (stream @ ''{'')) (\<lambda>s1.
     and_then (stream_score P r s1) (\<lambda>s2.
     and_then (stream_begin_positions P r s2) (\<lambda>s3.
     and_then (stream_end_positions P r s3) (\<lambda>s4.
     and_then (stream_alignment P r s4) (\<lambda>s5.
     Inr (s5 @ ''}''))))))"

text \<open>
  Printers for the scenarios below: a string is written as it is, an integer in decimal
  notation, as the debug stream does for \<open>std::string\<close> and the built-in integer types.
\<close>

definition digit_char :: "nat \<Rightarrow> char" where
  "digit_char d = ''0123456789'' ! d"

fun show_nat :: "nat \<Rightarrow> string" where
  "show_nat n = (if n < 10 then [digit_char n] else show_nat (n div 10) @ [digit_char (n mod 10)])"

declare show_nat.simps [simp del]

definition show_int :: "int \<Rightarrow> string" where
  "show_int i = (if i < 0 then ''-'' @ show_nat (nat (- i)) else show_nat (nat i))"

definition plain_printers :: "(string, int, nat, string) printers" where
  "plain_printers =
     \<lparr>print_id = (\<lambda>s. s), print_score = show_int, print_position = show_nat,
      print_alignment = (\<lambda>s. s)\<rparr>"

subsection \<open>The result builder\<close>

text \<open>
  The class \<open>policy_alignment_result_builder\<close> is only declared and befriended in
  alignment\_result.hpp; its body lives in another header. The definitions of this
  subsection follow the specification's builder contract.
\<close>

text \<open>
  Modelled from the spec: the fields a caller can request (the specification's
  \<open>ResultFieldSet\<close> ranges over them). The enumeration of the library's alignment
  configuration is not among the source files.
\<close>

datatype result_field =
  Identifier | Score | EndPositions | BeginPositions | Alignment
| DebugScoreMatrix | DebugTraceMatrix

text \<open>
  Modelled from the spec: the error taxonomy of the specification. No source file
  defines these errors.
\<close>

datatype spec_error = RangeError | ConflictError | CapabilityError | MissingFieldError

text \<open>
  Modelled from the spec: the record \<open>AlgorithmOutput\<close> handed over by the alignment
  algorithm, which is not among the source files. A field the algorithm did not supply
  is \<open>None\<close>.
\<close>

record ('id, 'score, 'pos, 'aln, 'sm, 'tm) algorithm_output =
  raw_id :: "'id option"
  raw_score :: "'score option"
  raw_end_positions :: "('pos \<times> 'pos) option"
  raw_begin_positions :: "('pos \<times> 'pos) option"
  raw_alignment :: "'aln option"
  raw_score_debug_matrix :: "'sm option"
  raw_trace_debug_matrix :: "'tm option"

text \<open>
  Modelled from the spec: one field of \<open>build\<close>, whose code is missing. A requested
  field is copied from the raw output, and its absence there is a \<open>MissingFieldError\<close>;
  a field that was not requested carries the absent sentinel.
\<close>

definition build_field :: "bool \<Rightarrow> 'a option \<Rightarrow> spec_error + 'a field" where
  "build_field requested raw =
     (if requested
      then (case raw of None \<Rightarrow> Inl MissingFieldError | Some v \<Rightarrow> Inr (Value v))
      else Inr Nullopt_ptr)"

text \<open>
  Modelled from the spec: what the built result carries for one field, the copied value
  when the field was requested and supplied, the absent sentinel otherwise.
\<close>

definition stored_field :: "bool \<Rightarrow> 'a option \<Rightarrow> 'a field" where
  "stored_field requested raw =
     (if requested then (case raw of None \<Rightarrow> Nullopt_ptr | Some v \<Rightarrow> Value v)
      else Nullopt_ptr)"

text \<open>
  Modelled from the spec: \<open>build(requested, raw)\<close> of the Result Builder
  (\<open>policy_alignment_result_builder\<close>, whose definition is missing from the source
  files). It treats the seven fields one by one and hands the struct to the constructor
  of \<open>alignment_result\<close>.
\<close>

definition build ::
  "result_field set \<Rightarrow> ('id, 'score, 'pos, 'aln, 'sm, 'tm) algorithm_output \<Rightarrow>
     spec_error + ('id, 'score, 'pos, 'aln, 'sm, 'tm) alignment_result" where
  "build requested raw =
     and_then (build_field (Identifier \<in> requested) (raw_id raw)) (\<lambda>i.
     and_then (build_field (Score \<in> requested) (raw_score raw)) (\<lambda>s.
     and_then (build_field (EndPositions \<in> requested) (raw_end_positions raw)) (\<lambda>e.
     and_then (build_field (BeginPositions \<in> requested) (raw_begin_positions raw)) (\<lambda>b.
     and_then (build_field (Alignment \<in> requested) (raw_alignment raw)) (\<lambda>a.
     and_then (build_field (DebugScoreMatrix \<in> requested) (raw_score_debug_matrix raw)) (\<lambda>sm.
     and_then (build_field (DebugTraceMatrix \<in> requested) (raw_trace_debug_matrix raw)) (\<lambda>tm.
     Inr (alignment_result_from
            \<lparr>data_id = i, data_score = s, data_end_positions = e, data_begin_positions = b,
             data_alignment = a, data_score_debug_matrix = sm,
             data_trace_debug_matrix = tm\<rparr>))))))))"

text \<open>
  Modelled from the spec: whether the raw output supplies every requested field. It is
  used to state when \<open>build\<close> succeeds.
\<close>

definition supplies_requested ::
  "result_field set \<Rightarrow> ('id, 'score, 'pos, 'aln, 'sm, 'tm) algorithm_output \<Rightarrow> bool" where
  "supplies_requested requested raw =
     ((Identifier \<in> requested \<longrightarrow> raw_id raw \<noteq> None) \<and>
      (Score \<in> requested \<longrightarrow> raw_score raw \<noteq> None) \<and>
      (EndPositions \<in> requested \<longrightarrow> raw_end_positions raw \<noteq> None) \<and>
      (BeginPositions \<in> requested \<longrightarrow> raw_begin_positions raw \<noteq> None) \<and>
      (Alignment \<in> requested \<longrightarrow> raw_alignment raw \<noteq> None) \<and>
      (DebugScoreMatrix \<in> requested \<longrightarrow> raw_score_debug_matrix raw \<noteq> None) \<and>
      (DebugTraceMatrix \<in> requested \<longrightarrow> raw_trace_debug_matrix raw \<noteq> None))"

section \<open>The error budgets of the search (max\_error.hpp)\<close>

subsection \<open>Tagged values\<close>

text \<open>
  Modelled from the spec: the two alternatives of the payload
  \<open>std::variant<error_count, error_rate>\<close>. The types \<open>error_count\<close> and \<open>error_rate\<close>
  come from max\_error\_common.hpp, which is not among the source files. A \<open>Count\<close>
  holds an integer, a \<open>Rate\<close> a real number.
\<close>

datatype tagged_value = Count int | Rate real

text \<open>
  Modelled from the spec: construction of a \<open>Count\<close> from an integer; a negative one is
  a \<open>RangeError\<close>. The constructor of \<open>error_count\<close> is missing from the source files.
\<close>

definition make_count :: "int \<Rightarrow> spec_error + tagged_value" where
  "make_count c = (if c < 0 then Inl RangeError else Inr (Count c))"

text \<open>
  Modelled from the spec: construction of a \<open>Rate\<close> from a real number; one outside
  \<open>[0, 1]\<close> is a \<open>RangeError\<close>. The constructor of \<open>error_rate\<close> is missing from the
  source files.
\<close>

definition make_rate :: "real \<Rightarrow> spec_error + tagged_value" where
  "make_rate r = (if 0 \<le> r \<and> r \<le> 1 then Inr (Rate r) else Inl RangeError)"

text \<open>
  Modelled from the spec: the contained value, typed to the active alternative; asking
  for the other alternative gives nothing.
\<close>

fun count_of :: "tagged_value \<Rightarrow> int option" where
  "count_of (Count c) = Some c"
| "count_of (Rate r) = None"

fun rate_of :: "tagged_value \<Rightarrow> real option" where
  "rate_of (Count c) = None"
| "rate_of (Rate r) = Some r"

subsection \<open>The four configuration elements\<close>

text \<open>
  The enumerators of \<open>detail::search_config_id\<close> that max\_error.hpp names.
\<close>

datatype search_config_id =
  id_max_error_total | id_max_error_substitution | id_max_error_insertion
| id_max_error_deletion

text \<open>
  The classes \<open>max_error_total\<close>, \<open>max_error_substitution\<close>, \<open>max_error_insertion\<close> and
  \<open>max_error_deletion\<close>. Each carries the payload it inherits from
  \<open>pipeable_config_element\<close> and a static member \<open>id\<close>.
\<close>

datatype max_error =
  max_error_total tagged_value
| max_error_substitution tagged_value
| max_error_insertion tagged_value
| max_error_deletion tagged_value

fun max_error_id :: "max_error \<Rightarrow> search_config_id" where
  "max_error_id (max_error_total v) = id_max_error_total"
| "max_error_id (max_error_substitution v) = id_max_error_substitution"
| "max_error_id (max_error_insertion v) = id_max_error_insertion"
| "max_error_id (max_error_deletion v) = id_max_error_deletion"

fun max_error_value :: "max_error \<Rightarrow> tagged_value" where
  "max_error_value (max_error_total v) = v"
| "max_error_value (max_error_substitution v) = v"
| "max_error_value (max_error_insertion v) = v"
| "max_error_value (max_error_deletion v) = v"

subsection \<open>Configuration bundles\<close>

text \<open>
  The class \<open>configuration\<close> and the operation that combines elements come from
  configuration.hpp and pipeable\_config\_element.hpp, which are not among the source
  files. The definitions of this subsection follow the specification.
\<close>

text \<open>
  Modelled from the spec: a Configuration Element, either an error budget (category and
  tagged value) or the request for a result field (category and presence marker).
\<close>

datatype config_element = Error_budget max_error | Result_field result_field

text \<open>Modelled from the spec: the category identifiers of both domains.\<close>

datatype category = Error_category search_config_id | Result_category result_field

text \<open>Modelled from the spec: what a lookup returns for a category that is present.\<close>

datatype config_value = Budget tagged_value | Presence_marker

text \<open>Modelled from the spec: the category of an element.\<close>

fun category_of :: "config_element \<Rightarrow> category" where
  "category_of (Error_budget e) = Error_category (max_error_id e)"
| "category_of (Result_field f) = Result_category f"

text \<open>Modelled from the spec: the value of an element.\<close>

fun value_of :: "config_element \<Rightarrow> config_value" where
  "value_of (Error_budget e) = Budget (max_error_value e)"
| "value_of (Result_field f) = Presence_marker"

text \<open>
  Modelled from the spec: a Configuration Bundle is an ordered collection of elements,
  the insertion order preserved.
\<close>

type_synonym configuration_bundle = "config_element list"

text \<open>
  Modelled from the spec: \<open>get(bundle, category)\<close>, the value of the category or
  nothing; it leaves the bundle as it is.
\<close>

fun get :: "configuration_bundle \<Rightarrow> category \<Rightarrow> config_value option" where
  "get [] c = None"
| "get (x # xs) c = (if category_of x = c then Some (value_of x) else get xs c)"

text \<open>
  Modelled from the spec: the newer element takes the place of the older element of its
  category.
\<close>

definition replace_element :: "config_element \<Rightarrow> configuration_bundle \<Rightarrow> configuration_bundle" where
  "replace_element e b = map (\<lambda>x. if category_of x = category_of e then e else x) b"

text \<open>
  Modelled from the spec: \<open>combine(bundle, element)\<close>. Where the category of the
  element already occurs, an error budget replaces the older element and a result-field
  request changes nothing; otherwise the element is appended.
\<close>

definition combine :: "configuration_bundle \<Rightarrow> config_element \<Rightarrow> configuration_bundle" where
  "combine b e =
     (if category_of e \<in> category_of ` set b
      then (case e of Error_budget m \<Rightarrow> replace_element e b | Result_field f \<Rightarrow> b)
      else b @ [e])"

text \<open>
  Modelled from the spec: combining a bundle with a group of elements that was combined
  first. The elements of the group enter one by one, in their insertion order.
\<close>

definition combine_bundles :: "configuration_bundle \<Rightarrow> configuration_bundle \<Rightarrow> configuration_bundle" where
  "combine_bundles b g = foldl combine b g"

text \<open>
  Modelled from the spec: the invariant of a bundle, at most one element for each
  category.
\<close>

definition single_valued_bundle :: "configuration_bundle \<Rightarrow> bool" where
  "single_valued_bundle b = distinct (map category_of b)"

text \<open>
  Modelled from the spec: two bundles are equal when they map every category to the same
  value.
\<close>

definition all_categories :: "category list" where
  "all_categories =
     map Error_category
       [id_max_error_total, id_max_error_substitution, id_max_error_insertion,
        id_max_error_deletion] @
     map Result_category
       [Identifier, Score, EndPositions, BeginPositions, Alignment, DebugScoreMatrix,
        DebugTraceMatrix]"

definition bundle_equal :: "configuration_bundle \<Rightarrow> configuration_bundle \<Rightarrow> bool" where
  "bundle_equal b1 b2 = list_all (\<lambda>c. get b1 c = get b2 c) all_categories"

section \<open>Properties of the accessors\<close>

lemmas accessor_defs =
  result_id_def score_def sequence1_end_position_def sequence2_end_position_def
  sequence1_begin_position_def sequence2_begin_position_def alignment_def score_matrix_def
  trace_matrix_def

text \<open>
  Claim C1. A result built through the deduction guide for identifier and score only,
  from the identifier \<open>r1\<close> and the score \<open>42\<close>, answers \<open>id()\<close> with \<open>r1\<close> and
  \<open>score()\<close> with \<open>42\<close>; its \<open>alignment()\<close> is rejected by the static assertion and
  yields no value.
\<close>

theorem id_score_only_result:
  "result_id (alignment_result_from (value_type_id_score ''r1'' (42::int))) = Inr ''r1'' \<and>
   score (alignment_result_from (value_type_id_score ''r1'' (42::int))) = Inr 42 \<and>
   alignment (alignment_result_from (value_type_id_score ''r1'' (42::int))) =
     Inl (Static_assert
       ''Trying to access the alignment, although it was not requested in the alignment configuration.'') \<and>
   (\<forall>a. alignment (alignment_result_from (value_type_id_score ''r1'' (42::int))) \<noteq> Inr a)"
  by (simp add: alignment_result_from_def value_type_id_score_def result_id_def
      score_def alignment_def)

text \<open>
  Claim C2. Whatever the result, an accessor whose member has the type
  \<open>std::nullopt_t *\<close> (the field was not requested) is rejected by its static assertion
  when the program is built. It yields an error and never a value, so no default and no
  null pointer can be read through it. This holds for all nine accessors.
\<close>

theorem unrequested_field_is_rejected:
  "(\<not> is_available (data_id (data r)) \<longrightarrow> (\<exists>m. result_id r = Inl (Static_assert m))) \<and>
   (\<not> is_available (data_score (data r)) \<longrightarrow> (\<exists>m. score r = Inl (Static_assert m))) \<and>
   (\<not> is_available (data_end_positions (data r)) \<longrightarrow>
      (\<exists>m. sequence1_end_position r = Inl (Static_assert m)) \<and>
      (\<exists>m. sequence2_end_position r = Inl (Static_assert m))) \<and>
   (\<not> is_available (data_begin_positions (data r)) \<longrightarrow>
      (\<exists>m. sequence1_begin_position r = Inl (Static_assert m)) \<and>
      (\<exists>m. sequence2_begin_position r = Inl (Static_assert m))) \<and>
   (\<not> is_available (data_alignment (data r)) \<longrightarrow> (\<exists>m. alignment r = Inl (Static_assert m))) \<and>
   (\<not> is_available (data_score_debug_matrix (data r)) \<longrightarrow>
      (\<exists>m. score_matrix r = Inl (Static_assert m))) \<and>
   (\<not> is_available (data_trace_debug_matrix (data r)) \<longrightarrow>
      (\<exists>m. trace_matrix r = Inl (Static_assert m)))"
  by (auto simp: accessor_defs split: field.splits)

theorem unrequested_field_is_rejected_witness:
  "\<not> is_available (data_id (data (alignment_result_from
       (value_type_empty :: (string, int, nat, string, unit, unit) alignment_result_value_type)))) \<and>
   \<not> is_available (data_alignment (data (alignment_result_from
       (value_type_empty :: (string, int, nat, string, unit, unit) alignment_result_value_type)))) \<and>
   (\<exists>m. result_id (alignment_result_from
       (value_type_empty :: (string, int, nat, string, unit, unit) alignment_result_value_type))
      = Inl (Static_assert m)) \<and>
   (\<exists>m. score (alignment_result_from
       (value_type_empty :: (string, int, nat, string, unit, unit) alignment_result_value_type))
      = Inl (Static_assert m)) \<and>
   (\<exists>m. sequence1_end_position (alignment_result_from
       (value_type_empty :: (string, int, nat, string, unit, unit) alignment_result_value_type))
      = Inl (Static_assert m)) \<and>
   (\<exists>m. sequence2_begin_position (alignment_result_from
       (value_type_empty :: (string, int, nat, string, unit, unit) alignment_result_value_type))
      = Inl (Static_assert m)) \<and>
   (\<exists>m. alignment (alignment_result_from
       (value_type_empty :: (string, int, nat, string, unit, unit) alignment_result_value_type))
      = Inl (Static_assert m)) \<and>
   (\<exists>m. score_matrix (alignment_result_from
       (value_type_empty :: (string, int, nat, string, unit, unit) alignment_result_value_type))
      = Inl (Static_assert m)) \<and>
   (\<exists>m. trace_matrix (alignment_result_from
       (value_type_empty :: (string, int, nat, string, unit, unit) alignment_result_value_type))
      = Inl (Static_assert m))"
  using unrequested_field_is_rejected
    [of "alignment_result_from
       (value_type_empty :: (string, int, nat, string, unit, unit) alignment_result_value_type)"]
  by (simp add: alignment_result_from_def value_type_empty_def)

section \<open>Properties of the stream operator\<close>

text \<open>
  The text the operator appends, field by field. Every field contributes a text of its
  own that depends on nothing but the field.
\<close>

lemma debug_stream_result_text:
  fixes r :: "('id, 'score, 'pos, 'aln, 'sm, 'tm) alignment_result"
  shows "debug_stream_result P stream r = Inr (stream @ ''{'' @
     (case data_id (data r) of Nullopt_ptr \<Rightarrow> [] | Value i \<Rightarrow> ''id: '' @ print_id P i) @
     (case data_score (data r) of Nullopt_ptr \<Rightarrow> [] | Value s \<Rightarrow> '', score: '' @ print_score P s) @
     (case data_begin_positions (data r) of Nullopt_ptr \<Rightarrow> []
        | Value b \<Rightarrow> '', begin: ('' @ print_position P (fst b) @ '','' @ print_position P (snd b) @ '')'') @
     (case data_end_positions (data r) of Nullopt_ptr \<Rightarrow> []
        | Value e \<Rightarrow> '', end: ('' @ print_position P (fst e) @ '','' @ print_position P (snd e) @ '')'') @
     (case data_alignment (data r) of Nullopt_ptr \<Rightarrow> []
        | Value a \<Rightarrow> [CHR ''\<newline>''] @ ''alignment:'' @ [CHR ''\<newline>''] @ print_alignment P a) @
     ''}'')"
  by (simp add: debug_stream_result_def stream_id_def stream_score_def stream_begin_positions_def
      stream_end_positions_def stream_alignment_def and_then_def has_id_def has_score_def
      has_begin_positions_def has_end_positions_def has_alignment_def accessor_defs
      split: field.splits)

lemma show_nat_digits:
  "show_nat 2 = ''2''" "show_nat 3 = ''3''" "show_nat 9 = ''9''" "show_nat 11 = ''11''"
  "show_nat 42 = ''42''"
  by (simp_all add: show_nat.simps digit_char_def)

text \<open>
  Claim C4. A result with the identifier \<open>r1\<close>, the score \<open>42\<close>, the begin positions
  \<open>(2,3)\<close>, the end positions \<open>(9,11)\<close> and no alignment is streamed as exactly
  \<open>{id: r1, score: 42, begin: (2,3), end: (9,11)}\<close>, whatever the two debug matrices
  are. When all five fields are there, their texts come in the order identifier, score,
  begin, end, alignment.
\<close>

theorem stream_of_full_positions:
  "debug_stream_result plain_printers stream
     \<lparr>data = \<lparr>data_id = Value ''r1'', data_score = Value 42, data_end_positions = Value (9, 11),
        data_begin_positions = Value (2, 3), data_alignment = Nullopt_ptr,
        data_score_debug_matrix = sm, data_trace_debug_matrix = tm\<rparr>\<rparr>
     = Inr (stream @ ''{id: r1, score: 42, begin: (2,3), end: (9,11)}'') \<and>
   debug_stream_result P stream
     \<lparr>data = \<lparr>data_id = Value i, data_score = Value s, data_end_positions = Value (e1, e2),
        data_begin_positions = Value (b1, b2), data_alignment = Value a,
        data_score_debug_matrix = sm', data_trace_debug_matrix = tm'\<rparr>\<rparr>
     = Inr (stream @ ''{id: '' @ print_id P i @ '', score: '' @ print_score P s @
            '', begin: ('' @ print_position P b1 @ '','' @ print_position P b2 @ '')'' @
            '', end: ('' @ print_position P e1 @ '','' @ print_position P e2 @ '')'' @
            [CHR ''\<newline>''] @ ''alignment:'' @ [CHR ''\<newline>''] @ print_alignment P a @ ''}'')"
  by (simp add: debug_stream_result_text plain_printers_def show_int_def show_nat_digits)

text \<open>
  Claim C9. The separator of a field is written whenever the field is there, whether or
  not a field was written before it. The output is the opening brace, then for each of
  identifier, score, begin positions, end positions and alignment a text that depends on
  that field alone (nothing when the field is missing), then the closing brace. With a
  score and no identifier the output starts with \<open>{, score: \<close>; likewise the begin and
  the end positions keep their leading comma when they come first. For a score, begin
  positions or end positions that are there, the output is the output without that field
  with the separator and the field inserted after the text of the earlier fields,
  whatever that text is. An alignment adds a line break, the label \<open>alignment:\<close>, a line
  break and the alignment directly after the text of the earlier fields, with no comma.
\<close>

theorem separators_are_unconditional:
  "debug_stream_result P stream r =
     Inr (stream @ ''{'' @
       (case data_id (data r) of Nullopt_ptr \<Rightarrow> [] | Value i \<Rightarrow> ''id: '' @ print_id P i) @
       (case data_score (data r) of Nullopt_ptr \<Rightarrow> []
        | Value v \<Rightarrow> '', score: '' @ print_score P v) @
       (case data_begin_positions (data r) of Nullopt_ptr \<Rightarrow> []
        | Value p \<Rightarrow> '', begin: ('' @ print_position P (fst p) @ '','' @
            print_position P (snd p) @ '')'') @
       (case data_end_positions (data r) of Nullopt_ptr \<Rightarrow> []
        | Value p \<Rightarrow> '', end: ('' @ print_position P (fst p) @ '','' @
            print_position P (snd p) @ '')'') @
       (case data_alignment (data r) of Nullopt_ptr \<Rightarrow> []
        | Value v \<Rightarrow> [CHR ''\<newline>''] @ ''alignment:'' @ [CHR ''\<newline>''] @
            print_alignment P v) @
       ''}'') \<and>
   (data_id (data r) = Nullopt_ptr \<and> data_score (data r) = Value s \<longrightarrow>
      (\<exists>rest. debug_stream_result P stream r =
         Inr (stream @ ''{, score: '' @ print_score P s @ rest))) \<and>
   (data_id (data r) = Nullopt_ptr \<and> data_score (data r) = Nullopt_ptr \<and>
    data_begin_positions (data r) = Value b \<longrightarrow>
      (\<exists>rest. debug_stream_result P stream r =
         Inr (stream @ ''{, begin: ('' @ print_position P (fst b) @ rest))) \<and>
   (data_id (data r) = Nullopt_ptr \<and> data_score (data r) = Nullopt_ptr \<and>
    data_begin_positions (data r) = Nullopt_ptr \<and> data_end_positions (data r) = Value e \<longrightarrow>
      (\<exists>rest. debug_stream_result P stream r =
         Inr (stream @ ''{, end: ('' @ print_position P (fst e) @ rest))) \<and>
   (data_score (data r) = Value s \<longrightarrow>
      (\<exists>earlier later.
         debug_stream_result P stream (r\<lparr>data := (data r)\<lparr>data_score := Nullopt_ptr\<rparr>\<rparr>) =
           Inr (earlier @ later) \<and>
         debug_stream_result P stream r =
           Inr (earlier @ '', score: '' @ print_score P s @ later) \<and>
         debug_stream_result P stream
           (r\<lparr>data := (data r)\<lparr>data_score := Nullopt_ptr, data_begin_positions := Nullopt_ptr,
              data_end_positions := Nullopt_ptr, data_alignment := Nullopt_ptr\<rparr>\<rparr>) =
           Inr (earlier @ ''}''))) \<and>
   (data_begin_positions (data r) = Value b \<longrightarrow>
      (\<exists>earlier later.
         debug_stream_result P stream
           (r\<lparr>data := (data r)\<lparr>data_begin_positions := Nullopt_ptr\<rparr>\<rparr>) =
           Inr (earlier @ later) \<and>
         debug_stream_result P stream r =
           Inr (earlier @ '', begin: ('' @ print_position P (fst b) @ '','' @
                print_position P (snd b) @ '')'' @ later) \<and>
         debug_stream_result P stream
           (r\<lparr>data := (data r)\<lparr>data_begin_positions := Nullopt_ptr,
              data_end_positions := Nullopt_ptr, data_alignment := Nullopt_ptr\<rparr>\<rparr>) =
           Inr (earlier @ ''}''))) \<and>
   (data_end_positions (data r) = Value e \<longrightarrow>
      (\<exists>earlier later.
         debug_stream_result P stream
           (r\<lparr>data := (data r)\<lparr>data_end_positions := Nullopt_ptr\<rparr>\<rparr>) =
           Inr (earlier @ later) \<and>
         debug_stream_result P stream r =
           Inr (earlier @ '', end: ('' @ print_position P (fst e) @ '','' @
                print_position P (snd e) @ '')'' @ later) \<and>
         debug_stream_result P stream
           (r\<lparr>data := (data r)\<lparr>data_end_positions := Nullopt_ptr,
              data_alignment := Nullopt_ptr\<rparr>\<rparr>) =
           Inr (earlier @ ''}''))) \<and>
   (data_alignment (data r) = Value a \<longrightarrow>
      (\<exists>earlier.
         debug_stream_result P stream (r\<lparr>data := (data r)\<lparr>data_alignment := Nullopt_ptr\<rparr>\<rparr>) =
           Inr (earlier @ ''}'') \<and>
         debug_stream_result P stream r =
           Inr (earlier @ [CHR ''\<newline>''] @ ''alignment:'' @ [CHR ''\<newline>''] @
                print_alignment P a @ ''}'')))"
proof -
  let ?out = "debug_stream_result P stream"
  let ?id_text =
    "case data_id (data r) of Nullopt_ptr \<Rightarrow> [] | Value i \<Rightarrow> ''id: '' @ print_id P i"
  let ?score_text =
    "case data_score (data r) of Nullopt_ptr \<Rightarrow> [] | Value v \<Rightarrow> '', score: '' @ print_score P v"
  let ?begin_text =
    "case data_begin_positions (data r) of Nullopt_ptr \<Rightarrow> []
     | Value p \<Rightarrow> '', begin: ('' @ print_position P (fst p) @ '','' @
         print_position P (snd p) @ '')''"
  let ?end_text =
    "case data_end_positions (data r) of Nullopt_ptr \<Rightarrow> []
     | Value p \<Rightarrow> '', end: ('' @ print_position P (fst p) @ '','' @
         print_position P (snd p) @ '')''"
  let ?alignment_text =
    "case data_alignment (data r) of Nullopt_ptr \<Rightarrow> []
     | Value v \<Rightarrow> [CHR ''\<newline>''] @ ''alignment:'' @ [CHR ''\<newline>''] @
         print_alignment P v"
  have whole: "?out r = Inr (stream @ ''{'' @ ?id_text @ ?score_text @ ?begin_text @ ?end_text @
      ?alignment_text @ ''}'')"
    by (simp add: debug_stream_result_text)
  have score_first: "data_id (data r) = Nullopt_ptr \<and> data_score (data r) = Value s \<longrightarrow>
      (\<exists>rest. ?out r = Inr (stream @ ''{, score: '' @ print_score P s @ rest))"
    by (simp add: debug_stream_result_text)
  have begin_first: "data_id (data r) = Nullopt_ptr \<and> data_score (data r) = Nullopt_ptr \<and>
      data_begin_positions (data r) = Value b \<longrightarrow>
      (\<exists>rest. ?out r = Inr (stream @ ''{, begin: ('' @ print_position P (fst b) @ rest))"
    by (simp add: debug_stream_result_text)
  have end_first: "data_id (data r) = Nullopt_ptr \<and> data_score (data r) = Nullopt_ptr \<and>
      data_begin_positions (data r) = Nullopt_ptr \<and> data_end_positions (data r) = Value e \<longrightarrow>
      (\<exists>rest. ?out r = Inr (stream @ ''{, end: ('' @ print_position P (fst e) @ rest))"
    by (simp add: debug_stream_result_text)
  have score_any: "data_score (data r) = Value s \<longrightarrow>
      (\<exists>earlier later.
         ?out (r\<lparr>data := (data r)\<lparr>data_score := Nullopt_ptr\<rparr>\<rparr>) = Inr (earlier @ later) \<and>
         ?out r = Inr (earlier @ '', score: '' @ print_score P s @ later) \<and>
         ?out (r\<lparr>data := (data r)\<lparr>data_score := Nullopt_ptr, data_begin_positions := Nullopt_ptr,
              data_end_positions := Nullopt_ptr, data_alignment := Nullopt_ptr\<rparr>\<rparr>) =
           Inr (earlier @ ''}''))"
  proof
    assume present: "data_score (data r) = Value s"
    let ?earlier = "stream @ ''{'' @ ?id_text"
    let ?later = "?begin_text @ ?end_text @ ?alignment_text @ ''}''"
    have "?out (r\<lparr>data := (data r)\<lparr>data_score := Nullopt_ptr\<rparr>\<rparr>) = Inr (?earlier @ ?later)"
      by (simp add: debug_stream_result_text)
    moreover from present have
      "?out r = Inr (?earlier @ '', score: '' @ print_score P s @ ?later)"
      by (simp add: debug_stream_result_text)
    moreover have
      "?out (r\<lparr>data := (data r)\<lparr>data_score := Nullopt_ptr, data_begin_positions := Nullopt_ptr,
              data_end_positions := Nullopt_ptr, data_alignment := Nullopt_ptr\<rparr>\<rparr>) =
         Inr (?earlier @ ''}'')"
      by (simp add: debug_stream_result_text)
    ultimately show "\<exists>earlier later.
         ?out (r\<lparr>data := (data r)\<lparr>data_score := Nullopt_ptr\<rparr>\<rparr>) = Inr (earlier @ later) \<and>
         ?out r = Inr (earlier @ '', score: '' @ print_score P s @ later) \<and>
         ?out (r\<lparr>data := (data r)\<lparr>data_score := Nullopt_ptr, data_begin_positions := Nullopt_ptr,
              data_end_positions := Nullopt_ptr, data_alignment := Nullopt_ptr\<rparr>\<rparr>) =
           Inr (earlier @ ''}'')"
      by blast
  qed
  have begin_any: "data_begin_positions (data r) = Value b \<longrightarrow>
      (\<exists>earlier later.
         ?out (r\<lparr>data := (data r)\<lparr>data_begin_positions := Nullopt_ptr\<rparr>\<rparr>) =
           Inr (earlier @ later) \<and>
         ?out r = Inr (earlier @ '', begin: ('' @ print_position P (fst b) @ '','' @
                print_position P (snd b) @ '')'' @ later) \<and>
         ?out (r\<lparr>data := (data r)\<lparr>data_begin_positions := Nullopt_ptr,
              data_end_positions := Nullopt_ptr, data_alignment := Nullopt_ptr\<rparr>\<rparr>) =
           Inr (earlier @ ''}''))"
  proof
    assume present: "data_begin_positions (data r) = Value b"
    let ?earlier = "stream @ ''{'' @ ?id_text @ ?score_text"
    let ?later = "?end_text @ ?alignment_text @ ''}''"
    have "?out (r\<lparr>data := (data r)\<lparr>data_begin_positions := Nullopt_ptr\<rparr>\<rparr>) =
        Inr (?earlier @ ?later)"
      by (simp add: debug_stream_result_text)
    moreover from present have
      "?out r = Inr (?earlier @ '', begin: ('' @ print_position P (fst b) @ '','' @
                print_position P (snd b) @ '')'' @ ?later)"
      by (simp add: debug_stream_result_text)
    moreover have
      "?out (r\<lparr>data := (data r)\<lparr>data_begin_positions := Nullopt_ptr,
              data_end_positions := Nullopt_ptr, data_alignment := Nullopt_ptr\<rparr>\<rparr>) =
         Inr (?earlier @ ''}'')"
      by (simp add: debug_stream_result_text)
    ultimately show "\<exists>earlier later.
         ?out (r\<lparr>data := (data r)\<lparr>data_begin_positions := Nullopt_ptr\<rparr>\<rparr>) =
           Inr (earlier @ later) \<and>
         ?out r = Inr (earlier @ '', begin: ('' @ print_position P (fst b) @ '','' @
                print_position P (snd b) @ '')'' @ later) \<and>
         ?out (r\<lparr>data := (data r)\<lparr>data_begin_positions := Nullopt_ptr,
              data_end_positions := Nullopt_ptr, data_alignment := Nullopt_ptr\<rparr>\<rparr>) =
           Inr (earlier @ ''}'')"
      by blast
  qed
  have end_any: "data_end_positions (data r) = Value e \<longrightarrow>
      (\<exists>earlier later.
         ?out (r\<lparr>data := (data r)\<lparr>data_end_positions := Nullopt_ptr\<rparr>\<rparr>) =
           Inr (earlier @ later) \<and>
         ?out r = Inr (earlier @ '', end: ('' @ print_position P (fst e) @ '','' @
                print_position P (snd e) @ '')'' @ later) \<and>
         ?out (r\<lparr>data := (data r)\<lparr>data_end_positions := Nullopt_ptr,
              data_alignment := Nullopt_ptr\<rparr>\<rparr>) =
           Inr (earlier @ ''}''))"
  proof
    assume present: "data_end_positions (data r) = Value e"
    let ?earlier = "stream @ ''{'' @ ?id_text @ ?score_text @ ?begin_text"
    let ?later = "?alignment_text @ ''}''"
    have "?out (r\<lparr>data := (data r)\<lparr>data_end_positions := Nullopt_ptr\<rparr>\<rparr>) =
        Inr (?earlier @ ?later)"
      by (simp add: debug_stream_result_text)
    moreover from present have
      "?out r = Inr (?earlier @ '', end: ('' @ print_position P (fst e) @ '','' @
                print_position P (snd e) @ '')'' @ ?later)"
      by (simp add: debug_stream_result_text)
    moreover have
      "?out (r\<lparr>data := (data r)\<lparr>data_end_positions := Nullopt_ptr,
              data_alignment := Nullopt_ptr\<rparr>\<rparr>) =
         Inr (?earlier @ ''}'')"
      by (simp add: debug_stream_result_text)
    ultimately show "\<exists>earlier later.
         ?out (r\<lparr>data := (data r)\<lparr>data_end_positions := Nullopt_ptr\<rparr>\<rparr>) =
           Inr (earlier @ later) \<and>
         ?out r = Inr (earlier @ '', end: ('' @ print_position P (fst e) @ '','' @
                print_position P (snd e) @ '')'' @ later) \<and>
         ?out (r\<lparr>data := (data r)\<lparr>data_end_positions := Nullopt_ptr,
              data_alignment := Nullopt_ptr\<rparr>\<rparr>) =
           Inr (earlier @ ''}'')"
      by blast
  qed
  have alignment_any: "data_alignment (data r) = Value a \<longrightarrow>
      (\<exists>earlier.
         ?out (r\<lparr>data := (data r)\<lparr>data_alignment := Nullopt_ptr\<rparr>\<rparr>) = Inr (earlier @ ''}'') \<and>
         ?out r = Inr (earlier @ [CHR ''\<newline>''] @ ''alignment:'' @ [CHR ''\<newline>''] @
                print_alignment P a @ ''}''))"
    by (simp add: debug_stream_result_text)
  from whole score_first begin_first end_first score_any begin_any end_any alignment_any
  show ?thesis by (intro conjI)
qed

theorem separators_are_unconditional_witness:
  "data_id (data (\<lparr>data = \<lparr>data_id = Nullopt_ptr, data_score = Value 42,
        data_end_positions = Nullopt_ptr, data_begin_positions = Nullopt_ptr,
        data_alignment = Value ''AC-GT'', data_score_debug_matrix = Nullopt_ptr,
        data_trace_debug_matrix = Nullopt_ptr\<rparr>\<rparr>
        :: (string, int, nat, string, unit, unit) alignment_result)) = Nullopt_ptr \<and>
   debug_stream_result plain_printers []
     (\<lparr>data = \<lparr>data_id = Nullopt_ptr, data_score = Value 42,
        data_end_positions = Nullopt_ptr, data_begin_positions = Nullopt_ptr,
        data_alignment = Value ''AC-GT'', data_score_debug_matrix = Nullopt_ptr,
        data_trace_debug_matrix = Nullopt_ptr\<rparr>\<rparr>
        :: (string, int, nat, string, unit, unit) alignment_result)
     = Inr (''{, score: 42'' @ [CHR ''\<newline>''] @ ''alignment:'' @ [CHR ''\<newline>''] @
            ''AC-GT}'') \<and>
   debug_stream_result plain_printers []
     (\<lparr>data = \<lparr>data_id = Nullopt_ptr, data_score = Nullopt_ptr,
        data_end_positions = Value (9, 11), data_begin_positions = Value (2, 3),
        data_alignment = Nullopt_ptr, data_score_debug_matrix = Nullopt_ptr,
        data_trace_debug_matrix = Nullopt_ptr\<rparr>\<rparr>
        :: (string, int, nat, string, unit, unit) alignment_result)
     = Inr ''{, begin: (2,3), end: (9,11)}'' \<and>
   debug_stream_result plain_printers []
     (\<lparr>data = \<lparr>data_id = Nullopt_ptr, data_score = Nullopt_ptr,
        data_end_positions = Value (9, 11), data_begin_positions = Nullopt_ptr,
        data_alignment = Nullopt_ptr, data_score_debug_matrix = Nullopt_ptr,
        data_trace_debug_matrix = Nullopt_ptr\<rparr>\<rparr>
        :: (string, int, nat, string, unit, unit) alignment_result)
     = Inr ''{, end: (9,11)}'' \<and>
   debug_stream_result plain_printers []
     (\<lparr>data = \<lparr>data_id = Value ''r1'', data_score = Value 42,
        data_end_positions = Value (9, 11), data_begin_positions = Nullopt_ptr,
        data_alignment = Nullopt_ptr, data_score_debug_matrix = Nullopt_ptr,
        data_trace_debug_matrix = Nullopt_ptr\<rparr>\<rparr>
        :: (string, int, nat, string, unit, unit) alignment_result)
     = Inr ''{id: r1, score: 42, end: (9,11)}'' \<and>
   debug_stream_result plain_printers []
     (\<lparr>data = \<lparr>data_id = Value ''r1'', data_score = Nullopt_ptr,
        data_end_positions = Nullopt_ptr, data_begin_positions = Value (2, 3),
        data_alignment = Nullopt_ptr, data_score_debug_matrix = Nullopt_ptr,
        data_trace_debug_matrix = Nullopt_ptr\<rparr>\<rparr>
        :: (string, int, nat, string, unit, unit) alignment_result)
     = Inr ''{id: r1, begin: (2,3)}''"
  using separators_are_unconditional
    [of plain_printers "[]" "\<lparr>data = \<lparr>data_id = Nullopt_ptr, data_score = Value 42,
        data_end_positions = Nullopt_ptr, data_begin_positions = Nullopt_ptr,
        data_alignment = Value ''AC-GT'', data_score_debug_matrix = Nullopt_ptr,
        data_trace_debug_matrix = Nullopt_ptr\<rparr>\<rparr>
        :: (string, int, nat, string, unit, unit) alignment_result" 42 "(2, 3)" "(9, 11)" "''AC-GT''"]
  separators_are_unconditional
    [of plain_printers "[]" "\<lparr>data = \<lparr>data_id = Nullopt_ptr, data_score = Nullopt_ptr,
        data_end_positions = Value (9, 11), data_begin_positions = Value (2, 3),
        data_alignment = Nullopt_ptr, data_score_debug_matrix = Nullopt_ptr,
        data_trace_debug_matrix = Nullopt_ptr\<rparr>\<rparr>
        :: (string, int, nat, string, unit, unit) alignment_result" 42 "(2, 3)" "(9, 11)" "''AC-GT''"]
  separators_are_unconditional
    [of plain_printers "[]" "\<lparr>data = \<lparr>data_id = Nullopt_ptr, data_score = Nullopt_ptr,
        data_end_positions = Value (9, 11), data_begin_positions = Nullopt_ptr,
        data_alignment = Nullopt_ptr, data_score_debug_matrix = Nullopt_ptr,
        data_trace_debug_matrix = Nullopt_ptr\<rparr>\<rparr>
        :: (string, int, nat, string, unit, unit) alignment_result" 42 "(2, 3)" "(9, 11)" "''AC-GT''"]
  separators_are_unconditional
    [of plain_printers "[]" "\<lparr>data = \<lparr>data_id = Value ''r1'', data_score = Value 42,
        data_end_positions = Value (9, 11), data_begin_positions = Nullopt_ptr,
        data_alignment = Nullopt_ptr, data_score_debug_matrix = Nullopt_ptr,
        data_trace_debug_matrix = Nullopt_ptr\<rparr>\<rparr>
        :: (string, int, nat, string, unit, unit) alignment_result" 42 "(2, 3)" "(9, 11)" "''AC-GT''"]
  separators_are_unconditional
    [of plain_printers "[]" "\<lparr>data = \<lparr>data_id = Value ''r1'', data_score = Nullopt_ptr,
        data_end_positions = Nullopt_ptr, data_begin_positions = Value (2, 3),
        data_alignment = Nullopt_ptr, data_score_debug_matrix = Nullopt_ptr,
        data_trace_debug_matrix = Nullopt_ptr\<rparr>\<rparr>
        :: (string, int, nat, string, unit, unit) alignment_result" 42 "(2, 3)" "(9, 11)" "''AC-GT''"]
  by (simp add: plain_printers_def show_int_def show_nat_digits)

section \<open>Properties of the defaulted constructor\<close>

text \<open>
  Claim C10. The defaulted constructor needs no builder. It value-initialises every one
  of the seven members, so each of the nine accessors whose member has a proper type
  answers with the value-initialised value of that type; a score of an arithmetic type
  is \<open>0\<close>. Such a result is equal to one constructed from a computed score \<open>0\<close>.
\<close>

theorem default_constructed_result:
  "score (alignment_result_default (T\<lparr>score_t := Proper_type 0\<rparr>)) = Inr 0 \<and>
   score (alignment_result_default (T\<lparr>score_t := Proper_type 0\<rparr>)) =
     score (alignment_result_from (value_type_id_score i 0)) \<and>
   alignment_result_default
     \<lparr>id_t = Proper_type i, score_t = Proper_type 0, end_positions_t = Nullopt_ptr_type,
      begin_positions_t = Nullopt_ptr_type, alignment_t = Nullopt_ptr_type,
      score_debug_matrix_t = Nullopt_ptr_type, trace_debug_matrix_t = Nullopt_ptr_type\<rparr> =
     alignment_result_from (value_type_id_score i 0) \<and>
   (id_t T = Proper_type di \<longrightarrow> result_id (alignment_result_default T) = Inr di) \<and>
   (score_t T = Proper_type ds \<longrightarrow> score (alignment_result_default T) = Inr ds) \<and>
   (end_positions_t T = Proper_type de \<longrightarrow>
      sequence1_end_position (alignment_result_default T) = Inr (fst de) \<and>
      sequence2_end_position (alignment_result_default T) = Inr (snd de)) \<and>
   (begin_positions_t T = Proper_type db \<longrightarrow>
      sequence1_begin_position (alignment_result_default T) = Inr (fst db) \<and>
      sequence2_begin_position (alignment_result_default T) = Inr (snd db)) \<and>
   (alignment_t T = Proper_type da \<longrightarrow> alignment (alignment_result_default T) = Inr da) \<and>
   (score_debug_matrix_t T = Proper_type dsm \<longrightarrow>
      score_matrix (alignment_result_default T) = Inr dsm) \<and>
   (trace_debug_matrix_t T = Proper_type dtm \<longrightarrow>
      trace_matrix (alignment_result_default T) = Inr dtm) \<and>
   data_id (data (alignment_result_default T)) = value_initialised (id_t T) \<and>
   data_score (data (alignment_result_default T)) = value_initialised (score_t T) \<and>
   data_end_positions (data (alignment_result_default T)) =
     value_initialised (end_positions_t T) \<and>
   data_begin_positions (data (alignment_result_default T)) =
     value_initialised (begin_positions_t T) \<and>
   data_alignment (data (alignment_result_default T)) = value_initialised (alignment_t T) \<and>
   data_score_debug_matrix (data (alignment_result_default T)) =
     value_initialised (score_debug_matrix_t T) \<and>
   data_trace_debug_matrix (data (alignment_result_default T)) =
     value_initialised (trace_debug_matrix_t T)"
  by (simp add: alignment_result_default_def alignment_result_from_def value_type_id_score_def
      accessor_defs)

theorem default_constructed_result_witness:
  "score_t (\<lparr>id_t = Proper_type [], score_t = Proper_type 0,
        end_positions_t = Proper_type (0, 0), begin_positions_t = Proper_type (0, 0),
        alignment_t = Proper_type [], score_debug_matrix_t = Proper_type [],
        trace_debug_matrix_t = Proper_type []\<rparr>
        :: (string, int, nat, string, string, string) template_arguments) = Proper_type 0 \<and>
   result_id (alignment_result_default (\<lparr>id_t = Proper_type [], score_t = Proper_type 0,
        end_positions_t = Proper_type (0, 0), begin_positions_t = Proper_type (0, 0),
        alignment_t = Proper_type [], score_debug_matrix_t = Proper_type [],
        trace_debug_matrix_t = Proper_type []\<rparr>
        :: (string, int, nat, string, string, string) template_arguments)) = Inr [] \<and>
   score (alignment_result_default (\<lparr>id_t = Proper_type [], score_t = Proper_type 0,
        end_positions_t = Proper_type (0, 0), begin_positions_t = Proper_type (0, 0),
        alignment_t = Proper_type [], score_debug_matrix_t = Proper_type [],
        trace_debug_matrix_t = Proper_type []\<rparr>
        :: (string, int, nat, string, string, string) template_arguments)) = Inr 0 \<and>
   sequence1_end_position (alignment_result_default (\<lparr>id_t = Proper_type [], score_t = Proper_type 0,
        end_positions_t = Proper_type (0, 0), begin_positions_t = Proper_type (0, 0),
        alignment_t = Proper_type [], score_debug_matrix_t = Proper_type [],
        trace_debug_matrix_t = Proper_type []\<rparr>
        :: (string, int, nat, string, string, string) template_arguments)) = Inr 0 \<and>
   sequence2_end_position (alignment_result_default (\<lparr>id_t = Proper_type [], score_t = Proper_type 0,
        end_positions_t = Proper_type (0, 0), begin_positions_t = Proper_type (0, 0),
        alignment_t = Proper_type [], score_debug_matrix_t = Proper_type [],
        trace_debug_matrix_t = Proper_type []\<rparr>
        :: (string, int, nat, string, string, string) template_arguments)) = Inr 0 \<and>
   sequence1_begin_position (alignment_result_default (\<lparr>id_t = Proper_type [], score_t = Proper_type 0,
        end_positions_t = Proper_type (0, 0), begin_positions_t = Proper_type (0, 0),
        alignment_t = Proper_type [], score_debug_matrix_t = Proper_type [],
        trace_debug_matrix_t = Proper_type []\<rparr>
        :: (string, int, nat, string, string, string) template_arguments)) = Inr 0 \<and>
   sequence2_begin_position (alignment_result_default (\<lparr>id_t = Proper_type [], score_t = Proper_type 0,
        end_positions_t = Proper_type (0, 0), begin_positions_t = Proper_type (0, 0),
        alignment_t = Proper_type [], score_debug_matrix_t = Proper_type [],
        trace_debug_matrix_t = Proper_type []\<rparr>
        :: (string, int, nat, string, string, string) template_arguments)) = Inr 0 \<and>
   alignment (alignment_result_default (\<lparr>id_t = Proper_type [], score_t = Proper_type 0,
        end_positions_t = Proper_type (0, 0), begin_positions_t = Proper_type (0, 0),
        alignment_t = Proper_type [], score_debug_matrix_t = Proper_type [],
        trace_debug_matrix_t = Proper_type []\<rparr>
        :: (string, int, nat, string, string, string) template_arguments)) = Inr [] \<and>
   score_matrix (alignment_result_default (\<lparr>id_t = Proper_type [], score_t = Proper_type 0,
        end_positions_t = Proper_type (0, 0), begin_positions_t = Proper_type (0, 0),
        alignment_t = Proper_type [], score_debug_matrix_t = Proper_type [],
        trace_debug_matrix_t = Proper_type []\<rparr>
        :: (string, int, nat, string, string, string) template_arguments)) = Inr [] \<and>
   trace_matrix (alignment_result_default (\<lparr>id_t = Proper_type [], score_t = Proper_type 0,
        end_positions_t = Proper_type (0, 0), begin_positions_t = Proper_type (0, 0),
        alignment_t = Proper_type [], score_debug_matrix_t = Proper_type [],
        trace_debug_matrix_t = Proper_type []\<rparr>
        :: (string, int, nat, string, string, string) template_arguments)) = Inr []"
  using default_constructed_result
    [of "\<lparr>id_t = Proper_type [], score_t = Proper_type 0,
        end_positions_t = Proper_type (0, 0), begin_positions_t = Proper_type (0, 0),
        alignment_t = Proper_type [], score_debug_matrix_t = Proper_type [],
        trace_debug_matrix_t = Proper_type []\<rparr>
        :: (string, int, nat, string, string, string) template_arguments" "[]" "[]" 0 "(0, 0)" "(0, 0)" "[]" "[]" "[]"]
  by (simp add: alignment_result_default_def accessor_defs)

section \<open>Properties of the builder\<close>

lemma build_field_cases:
  "build_field q x = (if q \<and> x = None then Inl MissingFieldError else Inr (stored_field q x))"
  by (cases x) (simp_all add: build_field_def stored_field_def)

lemma and_then_if:
  "and_then (if c then Inl e else Inr v) f = (if c then Inl e else f v)"
  by (simp add: and_then_def)

lemma build_closed_form:
  "build requested raw =
     (if supplies_requested requested raw
      then Inr (alignment_result_from
        \<lparr>data_id = stored_field (Identifier \<in> requested) (raw_id raw),
         data_score = stored_field (Score \<in> requested) (raw_score raw),
         data_end_positions = stored_field (EndPositions \<in> requested) (raw_end_positions raw),
         data_begin_positions = stored_field (BeginPositions \<in> requested) (raw_begin_positions raw),
         data_alignment = stored_field (Alignment \<in> requested) (raw_alignment raw),
         data_score_debug_matrix =
           stored_field (DebugScoreMatrix \<in> requested) (raw_score_debug_matrix raw),
         data_trace_debug_matrix =
           stored_field (DebugTraceMatrix \<in> requested) (raw_trace_debug_matrix raw)\<rparr>)
      else Inl MissingFieldError)"
  unfolding build_def build_field_cases and_then_if supplies_requested_def
  by auto


lemma raw_positions_stored:
  assumes "build requested raw = Inr r"
    and "BeginPositions \<in> requested" and "EndPositions \<in> requested"
  shows "\<exists>b e. raw_begin_positions raw = Some b \<and> raw_end_positions raw = Some e \<and>
           data_begin_positions (data r) = Value b \<and> data_end_positions (data r) = Value e"
proof -
  from assms(1) have ok: "supplies_requested requested raw"
    by (simp add: build_closed_form split: if_splits)
  with assms(2,3) obtain b e where
    be: "raw_begin_positions raw = Some b" "raw_end_positions raw = Some e"
    by (auto simp: supplies_requested_def)
  from assms(1) ok have
    "r = alignment_result_from
        \<lparr>data_id = stored_field (Identifier \<in> requested) (raw_id raw),
         data_score = stored_field (Score \<in> requested) (raw_score raw),
         data_end_positions = stored_field (EndPositions \<in> requested) (raw_end_positions raw),
         data_begin_positions = stored_field (BeginPositions \<in> requested) (raw_begin_positions raw),
         data_alignment = stored_field (Alignment \<in> requested) (raw_alignment raw),
         data_score_debug_matrix =
           stored_field (DebugScoreMatrix \<in> requested) (raw_score_debug_matrix raw),
         data_trace_debug_matrix =
           stored_field (DebugTraceMatrix \<in> requested) (raw_trace_debug_matrix raw)\<rparr>"
    by (simp add: build_closed_form)
  with be assms(2,3) show ?thesis
    by (simp add: alignment_result_from_def stored_field_def)
qed

text \<open>
  Claim C8. When both position members are there and hold positions with begin at most
  end in both sequences, the four position accessors return them, so begin is at most end
  in both sequences. The builder looks at the presence of fields only: it succeeds
  exactly when every requested field is supplied, and it stores the supplied positions
  as they are, in whatever order they come.
\<close>

theorem positions_ordered_as_supplied:
  fixes r :: "('id, 'score, 'pos::ord, 'aln, 'sm, 'tm) alignment_result"
    and raw :: "('id, 'score, 'pos, 'aln, 'sm, 'tm) algorithm_output"
  shows
  "(data_begin_positions (data r) = Value b \<and> data_end_positions (data r) = Value e \<and>
    fst b \<le> fst e \<and> snd b \<le> snd e \<longrightarrow>
      (\<exists>b1 e1 b2 e2.
         sequence1_begin_position r = Inr b1 \<and> sequence1_end_position r = Inr e1 \<and> b1 \<le> e1 \<and>
         sequence2_begin_position r = Inr b2 \<and> sequence2_end_position r = Inr e2 \<and> b2 \<le> e2)) \<and>
   ((\<exists>r'. build requested raw = Inr r') \<longleftrightarrow> supplies_requested requested raw) \<and>
   (BeginPositions \<in> requested \<and> EndPositions \<in> requested \<and> build requested raw = Inr r' \<longrightarrow>
      (\<exists>b' e'. raw_begin_positions raw = Some b' \<and> raw_end_positions raw = Some e' \<and>
         sequence1_begin_position r' = Inr (fst b') \<and> sequence2_begin_position r' = Inr (snd b') \<and>
         sequence1_end_position r' = Inr (fst e') \<and> sequence2_end_position r' = Inr (snd e')))"
proof -
  have accessors: "data_begin_positions (data r) = Value b \<and> data_end_positions (data r) = Value e \<and>
    fst b \<le> fst e \<and> snd b \<le> snd e \<longrightarrow>
      (\<exists>b1 e1 b2 e2.
         sequence1_begin_position r = Inr b1 \<and> sequence1_end_position r = Inr e1 \<and> b1 \<le> e1 \<and>
         sequence2_begin_position r = Inr b2 \<and> sequence2_end_position r = Inr e2 \<and> b2 \<le> e2)"
    by (simp add: sequence1_begin_position_def sequence1_end_position_def
        sequence2_begin_position_def sequence2_end_position_def)
  have presence: "(\<exists>r'. build requested raw = Inr r') \<longleftrightarrow> supplies_requested requested raw"
    by (simp add: build_closed_form)
  have copied: "BeginPositions \<in> requested \<and> EndPositions \<in> requested \<and>
      build requested raw = Inr r' \<longrightarrow>
      (\<exists>b' e'. raw_begin_positions raw = Some b' \<and> raw_end_positions raw = Some e' \<and>
         sequence1_begin_position r' = Inr (fst b') \<and> sequence2_begin_position r' = Inr (snd b') \<and>
         sequence1_end_position r' = Inr (fst e') \<and> sequence2_end_position r' = Inr (snd e'))"
  proof
    assume h: "BeginPositions \<in> requested \<and> EndPositions \<in> requested \<and>
      build requested raw = Inr r'"
    then obtain b' e' where
      "raw_begin_positions raw = Some b'" "raw_end_positions raw = Some e'"
      "data_begin_positions (data r') = Value b'" "data_end_positions (data r') = Value e'"
      using raw_positions_stored [of requested raw r'] by blast
    then show "\<exists>b' e'. raw_begin_positions raw = Some b' \<and> raw_end_positions raw = Some e' \<and>
         sequence1_begin_position r' = Inr (fst b') \<and> sequence2_begin_position r' = Inr (snd b') \<and>
         sequence1_end_position r' = Inr (fst e') \<and> sequence2_end_position r' = Inr (snd e')"
      by (simp add: sequence1_begin_position_def sequence1_end_position_def
          sequence2_begin_position_def sequence2_end_position_def)
  qed
  from accessors presence copied show ?thesis by blast
qed

theorem positions_ordered_as_supplied_witness:
  "sequence1_begin_position (alignment_result_from (value_type_id_score_end_begin ''r1'' 42 (9, 11) (2, 3))
        :: (string, int, nat, string, unit, unit) alignment_result) = Inr 2 \<and>
   sequence1_end_position (alignment_result_from (value_type_id_score_end_begin ''r1'' 42 (9, 11) (2, 3))
        :: (string, int, nat, string, unit, unit) alignment_result) = Inr 9 \<and>
   sequence2_begin_position (alignment_result_from (value_type_id_score_end_begin ''r1'' 42 (9, 11) (2, 3))
        :: (string, int, nat, string, unit, unit) alignment_result) = Inr 3 \<and>
   sequence2_end_position (alignment_result_from (value_type_id_score_end_begin ''r1'' 42 (9, 11) (2, 3))
        :: (string, int, nat, string, unit, unit) alignment_result) = Inr 11 \<and>
   (2::nat) \<le> 9 \<and> (3::nat) \<le> 11 \<and>
   supplies_requested {Identifier, Score, EndPositions, BeginPositions}
     (\<lparr>raw_id = Some ''r1'', raw_score = Some 42, raw_end_positions = Some (1, 1),
        raw_begin_positions = Some (5, 5), raw_alignment = None,
        raw_score_debug_matrix = None, raw_trace_debug_matrix = None\<rparr>
        :: (string, int, nat, string, unit, unit) algorithm_output) \<and>
   build {Identifier, Score, EndPositions, BeginPositions}
     (\<lparr>raw_id = Some ''r1'', raw_score = Some 42, raw_end_positions = Some (1, 1),
        raw_begin_positions = Some (5, 5), raw_alignment = None,
        raw_score_debug_matrix = None, raw_trace_debug_matrix = None\<rparr>
        :: (string, int, nat, string, unit, unit) algorithm_output) =
     Inr (alignment_result_from
        \<lparr>data_id = Value ''r1'', data_score = Value 42, data_end_positions = Value (1, 1),
         data_begin_positions = Value (5, 5), data_alignment = Nullopt_ptr,
         data_score_debug_matrix = Nullopt_ptr, data_trace_debug_matrix = Nullopt_ptr\<rparr>
        :: (string, int, nat, string, unit, unit) alignment_result) \<and>
   sequence1_begin_position (alignment_result_from
        \<lparr>data_id = Value ''r1'', data_score = Value 42, data_end_positions = Value (1, 1),
         data_begin_positions = Value (5, 5), data_alignment = Nullopt_ptr,
         data_score_debug_matrix = Nullopt_ptr, data_trace_debug_matrix = Nullopt_ptr\<rparr>
        :: (string, int, nat, string, unit, unit) alignment_result) = Inr 5 \<and>
   sequence1_end_position (alignment_result_from
        \<lparr>data_id = Value ''r1'', data_score = Value 42, data_end_positions = Value (1, 1),
         data_begin_positions = Value (5, 5), data_alignment = Nullopt_ptr,
         data_score_debug_matrix = Nullopt_ptr, data_trace_debug_matrix = Nullopt_ptr\<rparr>
        :: (string, int, nat, string, unit, unit) alignment_result) = Inr 1 \<and>
   \<not> (5::nat) \<le> 1"
  using positions_ordered_as_supplied
    [of "alignment_result_from (value_type_id_score_end_begin ''r1'' 42 (9, 11) (2, 3))
        :: (string, int, nat, string, unit, unit) alignment_result" "(2, 3)" "(9, 11)"
        "{Identifier, Score, EndPositions, BeginPositions}"
        "\<lparr>raw_id = Some ''r1'', raw_score = Some 42, raw_end_positions = Some (1, 1),
        raw_begin_positions = Some (5, 5), raw_alignment = None,
        raw_score_debug_matrix = None, raw_trace_debug_matrix = None\<rparr>
        :: (string, int, nat, string, unit, unit) algorithm_output"
        "alignment_result_from
        \<lparr>data_id = Value ''r1'', data_score = Value 42, data_end_positions = Value (1, 1),
         data_begin_positions = Value (5, 5), data_alignment = Nullopt_ptr,
         data_score_debug_matrix = Nullopt_ptr, data_trace_debug_matrix = Nullopt_ptr\<rparr>
        :: (string, int, nat, string, unit, unit) alignment_result"]
  by (simp add: build_closed_form supplies_requested_def stored_field_def alignment_result_from_def
      value_type_id_score_end_begin_def sequence1_begin_position_def sequence1_end_position_def
      sequence2_begin_position_def sequence2_end_position_def)

section \<open>Properties of configuration bundles\<close>

subsection \<open>Lookups after a combination\<close>

lemma get_None_iff: "get b c = None \<longleftrightarrow> c \<notin> category_of ` set b"
  by (induction b) auto

lemma get_result_category:
  "Result_category f \<in> category_of ` set b \<Longrightarrow> get b (Result_category f) = Some Presence_marker"
proof (induction b)
  case Nil
  then show ?case by simp
next
  case (Cons x xs)
  then show ?case by (cases x) auto
qed

lemma get_replace_element:
  "get (replace_element e b) c =
     (if c = category_of e \<and> c \<in> category_of ` set b then Some (value_of e) else get b c)"
  by (induction b) (auto simp: replace_element_def)

lemma get_append: "get (b @ g) c = (case get b c of None \<Rightarrow> get g c | Some v \<Rightarrow> Some v)"
  by (induction b) auto

lemma get_combine:
  "get (combine b e) c = (if c = category_of e then Some (value_of e) else get b c)"
proof (cases "category_of e \<in> category_of ` set b")
  case True
  show ?thesis
  proof (cases e)
    case (Error_budget m)
    with True show ?thesis by (simp add: combine_def get_replace_element)
  next
    case (Result_field f)
    with True show ?thesis by (auto simp: combine_def get_result_category)
  qed
next
  case False
  then have "get b (category_of e) = None" by (simp add: get_None_iff)
  with False show ?thesis by (auto simp: combine_def get_append split: option.splits)
qed

lemma get_combine_bundles:
  "get (combine_bundles b g) c = (case get (rev g) c of None \<Rightarrow> get b c | Some v \<Rightarrow> Some v)"
  unfolding combine_bundles_def
  by (induction g arbitrary: b) (auto simp: get_combine get_append split: option.splits)

lemma combine_empty: "combine [] e = [e]"
  by (simp add: combine_def)

lemma combine_bundles_single: "combine_bundles b [e] = combine b e"
  by (simp add: combine_bundles_def)

lemma same_result_category:
  "category_of x = Result_category f \<Longrightarrow> x = Result_field f"
  by (cases x) auto

lemma get_rev_pair:
  "get (rev (combine [B] C)) c =
     (if c = category_of C then Some (value_of C)
      else if c = category_of B then Some (value_of B) else None)"
proof (cases "category_of B = category_of C")
  case True
  show ?thesis
  proof (cases C)
    case (Error_budget m)
    with True show ?thesis by (simp add: combine_def replace_element_def)
  next
    case (Result_field f)
    with True have "B = Result_field f" by (simp add: same_result_category)
    with Result_field show ?thesis by (simp add: combine_def)
  qed
next
  case False
  then show ?thesis by (simp add: combine_def)
qed


subsection \<open>The invariant of a bundle\<close>

text \<open>A combination keeps at most one element for each category.\<close>

lemma categories_of_replace_element:
  "map category_of (replace_element e b) = map category_of b"
  by (induction b) (simp_all add: replace_element_def)

lemma combine_keeps_single_valued:
  assumes "single_valued_bundle b"
  shows "single_valued_bundle (combine b e)"
proof (cases "category_of e \<in> category_of ` set b")
  case True
  with assms show ?thesis
    by (cases e) (simp_all add: combine_def single_valued_bundle_def categories_of_replace_element)
next
  case False
  with assms show ?thesis
    by (simp add: combine_def single_valued_bundle_def)
qed

lemma combine_bundles_keeps_single_valued:
  "single_valued_bundle b \<Longrightarrow> single_valued_bundle (combine_bundles b g)"
  unfolding combine_bundles_def
  by (induction g arbitrary: b) (simp_all add: combine_keeps_single_valued)


subsection \<open>Replacement, grouping and repeated requests\<close>

text \<open>
  Claim C3. Combining an error budget into a bundle makes the lookup of its category
  return the new value, whatever the bundle held before; every other category keeps its
  lookup, and no element of that category other than the new one is left in the bundle.
  In particular, total errors \<open>Count 3\<close> combined with total errors \<open>Count 5\<close> gives a
  bundle whose lookup for the total errors is \<open>Count 5\<close>.
\<close>

theorem budget_replaces_older:
  "get (combine b (Error_budget e)) (Error_category (max_error_id e)) = Some (Budget (max_error_value e)) \<and>
   (\<forall>c. c \<noteq> Error_category (max_error_id e) \<longrightarrow> get (combine b (Error_budget e)) c = get b c) \<and>
   (\<forall>x \<in> set (combine b (Error_budget e)).
      category_of x = Error_category (max_error_id e) \<longrightarrow> x = Error_budget e) \<and>
   get (combine (combine [] (Error_budget (max_error_total (Count 3))))
          (Error_budget (max_error_total (Count 5)))) (Error_category id_max_error_total)
     = Some (Budget (Count 5))"
proof -
  have newer: "get (combine b (Error_budget e)) (Error_category (max_error_id e)) =
      Some (Budget (max_error_value e))"
    by (simp add: get_combine)
  have others: "\<forall>c. c \<noteq> Error_category (max_error_id e) \<longrightarrow>
      get (combine b (Error_budget e)) c = get b c"
    by (simp add: get_combine)
  have gone: "\<forall>x \<in> set (combine b (Error_budget e)).
      category_of x = Error_category (max_error_id e) \<longrightarrow> x = Error_budget e"
  proof (cases "Error_category (max_error_id e) \<in> category_of ` set b")
    case True
    then show ?thesis by (auto simp: combine_def replace_element_def)
  next
    case False
    then have appended: "combine b (Error_budget e) = b @ [Error_budget e]"
      by (simp add: combine_def)
    from False have "\<forall>x \<in> set b. category_of x \<noteq> Error_category (max_error_id e)"
      by (metis image_eqI)
    with appended show ?thesis by auto
  qed
  have scenario: "get (combine (combine [] (Error_budget (max_error_total (Count 3))))
          (Error_budget (max_error_total (Count 5)))) (Error_category id_max_error_total)
     = Some (Budget (Count 5))"
    by (simp add: get_combine)
  from newer others gone scenario show ?thesis by blast
qed

theorem budget_replaces_older_witness:
  "get (combine [Error_budget (max_error_total (Count 3))] (Error_budget (max_error_total (Count 5))))
      (Error_category id_max_error_total) = Some (Budget (Count 5)) \<and>
   Error_category id_max_error_insertion \<noteq> Error_category id_max_error_total \<and>
   get (combine [Error_budget (max_error_total (Count 3))] (Error_budget (max_error_total (Count 5))))
      (Error_category id_max_error_insertion) = None \<and>
   Error_budget (max_error_total (Count 5)) \<in>
     set (combine [Error_budget (max_error_total (Count 3))]
            (Error_budget (max_error_total (Count 5)))) \<and>
   Error_budget (max_error_total (Count 3)) \<notin>
     set (combine [Error_budget (max_error_total (Count 3))]
            (Error_budget (max_error_total (Count 5))))"
  using budget_replaces_older
    [of "[Error_budget (max_error_total (Count 3))]" "max_error_total (Count 5)"]
  by (simp add: combine_def replace_element_def)

text \<open>
  Claim C5. For all elements \<open>A\<close>, \<open>B\<close> and \<open>C\<close>, inserted in this order, the grouping
  \<open>(A B) C\<close> and the grouping \<open>A (B C)\<close> give bundles that agree on the lookup of every
  category: the last element of a category wins in both.
\<close>

theorem combine_associative:
  "get (combine_bundles (combine_bundles (combine [] A) (combine [] B)) (combine [] C)) c =
     get (combine_bundles (combine [] A) (combine_bundles (combine [] B) (combine [] C))) c \<and>
   get (combine_bundles (combine_bundles (combine [] A) (combine [] B)) (combine [] C)) c =
     (if c = category_of C then Some (value_of C)
      else if c = category_of B then Some (value_of B)
      else if c = category_of A then Some (value_of A) else None)"
proof -
  let ?final = "if c = category_of C then Some (value_of C)
      else if c = category_of B then Some (value_of B)
      else if c = category_of A then Some (value_of A) else None"
  have left: "get (combine_bundles (combine_bundles [A] [B]) [C]) c = ?final"
    by (simp add: combine_bundles_single get_combine)
  have right: "get (combine_bundles [A] (combine_bundles [B] [C])) c = ?final"
    by (simp add: combine_bundles_single get_combine_bundles get_rev_pair)
  from left right show ?thesis by (simp only: combine_empty)
qed

text \<open>
  Claim C6. Requesting a result field a second time changes nothing: the bundle after
  two requests is the bundle after one, element by element and also as a mapping from
  categories to values.
\<close>

theorem result_field_request_idempotent:
  "combine (combine b (Result_field f)) (Result_field f) = combine b (Result_field f) \<and>
   bundle_equal (combine (combine b (Result_field f)) (Result_field f)) (combine b (Result_field f))"
proof -
  have "category_of (Result_field f) \<in> category_of ` set (combine b (Result_field f))"
    by (auto simp: combine_def)
  then have "combine (combine b (Result_field f)) (Result_field f) = combine b (Result_field f)"
    by (simp add: combine_def[of "combine b (Result_field f)"])
  then show ?thesis by (simp add: bundle_equal_def list_all_iff)
qed

section \<open>Properties of tagged values\<close>

text \<open>
  Claim C7. Constructing a count from an integer \<open>c\<close> succeeds and reports \<open>c\<close> back when
  \<open>0 \<le> c\<close>, and is a \<open>RangeError\<close> when \<open>c < 0\<close>; constructing a rate from a real \<open>r\<close>
  succeeds when \<open>r\<close> lies in \<open>[0, 1]\<close> and is a \<open>RangeError\<close> otherwise. Both checks are
  part of the construction.
\<close>

theorem count_and_rate_construction:
  "(0 \<le> c \<longrightarrow> (\<exists>t. make_count c = Inr t \<and> count_of t = Some c)) \<and>
   (c < 0 \<longrightarrow> make_count c = Inl RangeError) \<and>
   (0 \<le> r \<and> r \<le> 1 \<longrightarrow> (\<exists>t. make_rate r = Inr t \<and> rate_of t = Some r)) \<and>
   (r < 0 \<or> 1 < r \<longrightarrow> make_rate r = Inl RangeError)"
  by (auto simp: make_count_def make_rate_def)

theorem count_and_rate_construction_witness:
  "(0::int) \<le> 3 \<and> (\<exists>t. make_count 3 = Inr t \<and> count_of t = Some 3) \<and>
   (- 1 :: int) < 0 \<and> make_count (- 1) = Inl RangeError \<and>
   (0::real) \<le> 1 / 10 \<and> (1 / 10 :: real) \<le> 1 \<and> (\<exists>t. make_rate (1 / 10) = Inr t \<and> rate_of t = Some (1 / 10)) \<and>
   ((3 / 2 :: real) < 0 \<or> 1 < (3 / 2 :: real)) \<and> make_rate (3 / 2) = Inl RangeError"
  using count_and_rate_construction [of 3 "1 / 10"] count_and_rate_construction [of "- 1" "3 / 2"]
  by simp


end
